theory Spec2Isabelle
  imports Complex_Main
begin

section \<open>Tensor elements\<close>

text \<open>
  The tensors handled by \<^verbatim>\<open>ultralytics/models/yolo/human/val.py\<close> hold IEEE floating-point
  numbers. An element is a finite value, the negative zero, one of the two infinities, or
  NaN; \<open>Fin 0\<close> is the positive zero. Division by zero does not raise: it yields an
  infinity or NaN, and NaN passes through every later operation.

  The result of an arithmetic operation on finite values is rounded to the format of the
  tensors (half, single or double precision, as the tensors are). The rounding is a
  parameter of the operations, a function from the exact result to the element that
  stands for it, which may be an infinity on overflow or a zero on underflow. Nothing is
  assumed of it; the two results that IEEE arithmetic fixes whatever the format are
  written out (the difference of equal values is +0, a zero divided by a non-zero value
  is a zero).
\<close>

datatype fl = Fin real | NZero | PInf | NInf | NaN

type_synonym rounding = "real \<Rightarrow> fl"

fun fl_sub :: "rounding \<Rightarrow> fl \<Rightarrow> fl \<Rightarrow> fl" where
  "fl_sub rnd NaN y = NaN"
| "fl_sub rnd (Fin a) NaN = NaN"
| "fl_sub rnd NZero NaN = NaN"
| "fl_sub rnd PInf NaN = NaN"
| "fl_sub rnd NInf NaN = NaN"
| "fl_sub rnd (Fin a) (Fin b) = (if a = b then Fin 0 else rnd (a - b))"
| "fl_sub rnd (Fin a) NZero = (if a = 0 then Fin 0 else rnd a)"
| "fl_sub rnd NZero (Fin b) = (if b = 0 then NZero else rnd (- b))"
| "fl_sub rnd NZero NZero = Fin 0"
| "fl_sub rnd (Fin a) PInf = NInf"
| "fl_sub rnd NZero PInf = NInf"
| "fl_sub rnd (Fin a) NInf = PInf"
| "fl_sub rnd NZero NInf = PInf"
| "fl_sub rnd PInf (Fin b) = PInf"
| "fl_sub rnd PInf NZero = PInf"
| "fl_sub rnd PInf PInf = NaN"
| "fl_sub rnd PInf NInf = PInf"
| "fl_sub rnd NInf (Fin b) = NInf"
| "fl_sub rnd NInf NZero = NInf"
| "fl_sub rnd NInf PInf = NInf"
| "fl_sub rnd NInf NInf = NaN"

fun fl_abs :: "fl \<Rightarrow> fl" where
  "fl_abs (Fin a) = Fin \<bar>a\<bar>"
| "fl_abs NZero = Fin 0"
| "fl_abs PInf = PInf"
| "fl_abs NInf = PInf"
| "fl_abs NaN = NaN"

fun fl_div :: "rounding \<Rightarrow> fl \<Rightarrow> fl \<Rightarrow> fl" where
  "fl_div rnd NaN y = NaN"
| "fl_div rnd (Fin a) NaN = NaN"
| "fl_div rnd NZero NaN = NaN"
| "fl_div rnd PInf NaN = NaN"
| "fl_div rnd NInf NaN = NaN"
| "fl_div rnd (Fin a) (Fin b) =
     (if b \<noteq> 0 then
        (if a = 0 then (if 0 < b then Fin 0 else NZero) else rnd (a / b))
      else if a = 0 then NaN
      else if 0 < a then PInf
      else NInf)"
| "fl_div rnd (Fin a) NZero =
     (if a = 0 then NaN
      else if 0 < a then NInf
      else PInf)"
| "fl_div rnd NZero (Fin b) =
     (if b = 0 then NaN
      else if 0 < b then NZero
      else Fin 0)"
| "fl_div rnd NZero NZero = NaN"
| "fl_div rnd (Fin a) PInf = (if 0 \<le> a then Fin 0 else NZero)"
| "fl_div rnd (Fin a) NInf = (if 0 \<le> a then NZero else Fin 0)"
| "fl_div rnd NZero PInf = NZero"
| "fl_div rnd NZero NInf = Fin 0"
| "fl_div rnd PInf (Fin b) = (if 0 \<le> b then PInf else NInf)"
| "fl_div rnd PInf NZero = NInf"
| "fl_div rnd NInf (Fin b) = (if 0 \<le> b then NInf else PInf)"
| "fl_div rnd NInf NZero = PInf"
| "fl_div rnd PInf PInf = NaN"
| "fl_div rnd PInf NInf = NaN"
| "fl_div rnd NInf PInf = NaN"
| "fl_div rnd NInf NInf = NaN"

text \<open>
  \<^verbatim>\<open>Tensor.clip(lo, hi)\<close>: \<^verbatim>\<open>min(max(x, lo), hi)\<close> on every element, NaN kept. A negative
  zero within the bounds stays a zero.
\<close>

fun fl_clip :: "real \<Rightarrow> real \<Rightarrow> fl \<Rightarrow> fl" where
  "fl_clip lo hi (Fin a) = Fin (min (max a lo) hi)"
| "fl_clip lo hi NZero = (if lo \<le> 0 \<and> 0 \<le> hi then NZero else Fin (min (max 0 lo) hi))"
| "fl_clip lo hi PInf = Fin hi"
| "fl_clip lo hi NInf = Fin lo"
| "fl_clip lo hi NaN = NaN"

text \<open>
  The comparison \<^verbatim>\<open>==\<close> of two elements: the two zeros are equal, NaN equals nothing,
  itself included.
\<close>

fun fl_eq :: "fl \<Rightarrow> fl \<Rightarrow> bool" where
  "fl_eq (Fin a) (Fin b) = (a = b)"
| "fl_eq (Fin a) NZero = (a = 0)"
| "fl_eq NZero (Fin b) = (b = 0)"
| "fl_eq NZero NZero = True"
| "fl_eq PInf PInf = True"
| "fl_eq NInf NInf = True"
| "fl_eq x y = False"

text \<open>\<^verbatim>\<open>.float()\<close> of a boolean tensor element.\<close>

definition bool_float :: "bool \<Rightarrow> fl" where
  "bool_float b = (if b then Fin 1 else Fin 0)"

text \<open>An element is a number of the interval [0, 1].\<close>

fun in_unit :: "fl \<Rightarrow> bool" where
  "in_unit (Fin a) = (0 \<le> a \<and> a \<le> 1)"
| "in_unit NZero = True"
| "in_unit PInf = False"
| "in_unit NInf = False"
| "in_unit NaN = False"

section \<open>Data model\<close>

datatype error =
  KeyError | IndexError | TypeError | ValueError | AttributeError | RuntimeError

datatype device = CPU | CUDA nat

datatype dtype = Float16 | Float32 | Float64 | Int64 | UInt8

text \<open>
  A tensor of rank 2, as the docstring of \<^verbatim>\<open>update_metrics\<close> gives the shapes [M, 11] and
  [N, 5]: \<open>ncols\<close> entries in each of \<open>rows\<close>. The image tensor is carried in the same
  record; nothing modelled here reads its entries.
\<close>

record tensor =
  tdevice :: device
  tdtype :: dtype
  ncols :: nat
  rows :: "fl list list"

definition wf_tensor :: "tensor \<Rightarrow> bool" where
  "wf_tensor t = list_all (\<lambda>r. length r = ncols t) (rows t)"

text \<open>The values a batch holds under its keys: tensors, lists of file paths, shapes.\<close>

datatype bval = TensorV tensor | PathsV "string list" | ShapeV "nat list"

type_synonym batch = "string \<Rightarrow> bval option"

text \<open>
  \<^verbatim>\<open>Human(preds)\<close>: the class \<^verbatim>\<open>Human\<close> lives in \<^verbatim>\<open>ultralytics.engine.results\<close>, outside the
  sources at hand, so the object it builds is taken as given: five attribute tensors of
  rank 1, and \<open>items\<close>, what iterating over the object yields (one entry per prediction).
\<close>

record human =
  weight :: "fl list"
  height :: "fl list"
  cls_gender :: "fl list"
  age :: "fl list"
  cls_ethnicity :: "fl list"
  items :: "fl list list"

record args =
  task :: string
  half :: bool
  save_txt :: bool
  save_conf :: bool
  workers :: nat

text \<open>
  The accumulator \<^verbatim>\<open>HumanMetrics\<close>: \<open>attrs_stats\<close> maps an attribute name to the list of
  accuracy arrays collected so far, one per batch.
\<close>

record human_metrics =
  attrs_stats :: "string \<Rightarrow> fl list list option"
  metrics_speed :: "real list"
  metrics_confusion_matrix :: "nat list list option"

text \<open>
  One call of \<^verbatim>\<open>Results.save_txt\<close>, which stands for the label file it writes: the path
  (a \<^verbatim>\<open>Path\<close> as the list of its components), the prediction, \<^verbatim>\<open>save_conf\<close> and the shape
  of the blank image the \<^verbatim>\<open>Results\<close> object was built on.
\<close>

record txt_write =
  txt_file :: "string list"
  human_of :: "fl list"
  with_conf :: bool
  im_shape :: "nat \<times> nat"

text \<open>
  The validator: the fields of \<^verbatim>\<open>self\<close> the methods touch, and \<open>txt_files\<close>, the label
  files written so far.
\<close>

record validator =
  args :: args
  device :: device
  save_dir :: "string list"
  metrics :: human_metrics
  speed :: "real list"
  confusion_matrix :: "nat list list option"
  txt_files :: "txt_write list"

section \<open>Tensor operations\<close>

definition bind_e :: "error + 'a \<Rightarrow> ('a \<Rightarrow> error + 'b) \<Rightarrow> error + 'b" where
  "bind_e r f = (case r of Inl e \<Rightarrow> Inl e | Inr x \<Rightarrow> f x)"

text \<open>\<^verbatim>\<open>t[:, k]\<close>: the column \<open>k\<close>, IndexError when the tensor has no such column.\<close>

definition column :: "tensor \<Rightarrow> nat \<Rightarrow> error + fl list" where
  "column t k = (if k < ncols t then Inr (map (\<lambda>r. r ! k) (rows t)) else Inl IndexError)"

text \<open>
  An elementwise operation on two tensors of rank 1. Equal sizes go element by element; a
  tensor of size 1 is broadcast against the other; any other pair of sizes raises
  RuntimeError.
\<close>

definition broadcast :: "(fl \<Rightarrow> fl \<Rightarrow> 'c) \<Rightarrow> fl list \<Rightarrow> fl list \<Rightarrow> error + 'c list" where
  "broadcast f xs ys =
     (if length xs = length ys then Inr (map2 f xs ys)
      else if length xs = 1 then Inr (map (f (hd xs)) ys)
      else if length ys = 1 then Inr (map (\<lambda>x. f x (hd ys)) xs)
      else Inl RuntimeError)"

text \<open>\<^verbatim>\<open>1 - (p - g).abs() / g\<close>\<close>

definition rel_acc :: "rounding \<Rightarrow> fl list \<Rightarrow> fl list \<Rightarrow> error + fl list" where
  "rel_acc rnd p g =
     bind_e (broadcast (fl_sub rnd) p g) (\<lambda>d.
     bind_e (broadcast (fl_div rnd) (map fl_abs d) g) (\<lambda>q.
     Inr (map (fl_sub rnd (Fin 1)) q)))"

text \<open>\<^verbatim>\<open>(c == g).float()\<close>\<close>

definition match_acc :: "fl list \<Rightarrow> fl list \<Rightarrow> error + fl list" where
  "match_acc c g = bind_e (broadcast fl_eq c g) (\<lambda>m. Inr (map bool_float m))"

section \<open>update_metrics\<close>

record accs =
  acc_w :: "fl list"
  acc_h :: "fl list"
  acc_g :: "fl list"
  acc_a :: "fl list"
  acc_e :: "fl list"

text \<open>Lines 64 to 74: the five columns of the ground truth, then the five accuracies.\<close>

definition accuracies :: "rounding \<Rightarrow> human \<Rightarrow> tensor \<Rightarrow> error + accs" where
  "accuracies rnd preds gt_attrs =
     bind_e (column gt_attrs 0) (\<lambda>w.
     bind_e (column gt_attrs 1) (\<lambda>h.
     bind_e (column gt_attrs 2) (\<lambda>g.
     bind_e (column gt_attrs 3) (\<lambda>a.
     bind_e (column gt_attrs 4) (\<lambda>e.
     bind_e (rel_acc rnd (weight preds) w) (\<lambda>aw.
     bind_e (rel_acc rnd (height preds) h) (\<lambda>ah.
     bind_e (match_acc (cls_gender preds) g) (\<lambda>ag.
     bind_e (rel_acc rnd (age preds) a) (\<lambda>aa.
     bind_e (match_acc (cls_ethnicity preds) e) (\<lambda>ae.
     Inr \<lparr>acc_w = aw, acc_h = ah, acc_g = ag, acc_a = aa, acc_e = ae\<rparr>))))))))))"

text \<open>\<^verbatim>\<open>self.metrics.attrs_stats[k].append(a)\<close>\<close>

definition append_stat :: "string \<Rightarrow> fl list \<Rightarrow> human_metrics \<Rightarrow> error + human_metrics" where
  "append_stat k a m =
     (case attrs_stats m k of
        None \<Rightarrow> Inl KeyError
      | Some l \<Rightarrow> Inr (m\<lparr>attrs_stats := (attrs_stats m)(k \<mapsto> l @ [a])\<rparr>))"

text \<open>
  The appends of lines 76 to 80, in order. An append that raises leaves the earlier ones
  in place: the accumulator is returned as it stands at that moment.
\<close>

fun append_all :: "(string \<times> fl list) list \<Rightarrow> human_metrics \<Rightarrow> error option \<times> human_metrics" where
  "append_all [] m = (None, m)"
| "append_all ((k, a) # rest) m =
     (case append_stat k a m of
        Inl e \<Rightarrow> (Some e, m)
      | Inr m' \<Rightarrow> append_all rest m')"

text \<open>
  \<^verbatim>\<open>Path(p).stem\<close> for a POSIX path: the last component of the path (empty components
  and \<^verbatim>\<open>.\<close> are dropped), without its last suffix; a leading or a trailing dot starts no
  suffix.
\<close>

fun split_on :: "char \<Rightarrow> string \<Rightarrow> string list" where
  "split_on c [] = [[]]"
| "split_on c (x # xs) =
     (if x = c then [] # split_on c xs
      else (case split_on c xs of
              [] \<Rightarrow> [[x]]
            | w # ws \<Rightarrow> (x # w) # ws))"

definition path_name :: "string \<Rightarrow> string" where
  "path_name p =
     (case filter (\<lambda>x. x \<noteq> [] \<and> x \<noteq> ''.'') (split_on CHR ''/'' p) of
        [] \<Rightarrow> []
      | q # qs \<Rightarrow> last (q # qs))"

definition stem :: "string \<Rightarrow> string" where
  "stem p =
     (let name = path_name p;
          k = length (takeWhile (\<lambda>c. c \<noteq> CHR ''.'') (rev name))
      in if 0 < k \<and> k + 1 < length name then take (length name - 1 - k) name else name)"

text \<open>
  What \<^verbatim>\<open>np.zeros\<close> accepts as one size when \<^verbatim>\<open>shape[k]\<close> is a row of a tensor: a tensor of
  one element of an integer type, not negative. Anything else of a tensor is a TypeError,
  a negative size a ValueError.
\<close>

definition as_size :: "dtype \<Rightarrow> fl list \<Rightarrow> error + nat" where
  "as_size d r =
     (if d = Int64 \<or> d = UInt8 then
        (case r of
           [Fin x] \<Rightarrow>
             (if of_int \<lfloor>x\<rfloor> = x
              then (if 0 \<le> x then Inr (nat \<lfloor>x\<rfloor>) else Inl ValueError)
              else Inl TypeError)
         | _ \<Rightarrow> Inl TypeError)
      else Inl TypeError)"

text \<open>
  \<^verbatim>\<open>save_one_txt\<close>: \<^verbatim>\<open>shape[0]\<close> and \<^verbatim>\<open>shape[1]\<close> size a blank image, a \<^verbatim>\<open>Results\<close> object is
  built on it and its \<^verbatim>\<open>save_txt\<close> is called.
\<close>

definition save_one_txt ::
  "validator \<Rightarrow> fl list \<Rightarrow> bool \<Rightarrow> bval \<Rightarrow> string list \<Rightarrow> error option \<times> validator" where
  "save_one_txt self predn conf shape f =
     (case shape of
        ShapeV ns \<Rightarrow>
          (if length ns < 2 then (Some IndexError, self)
           else (None, self\<lparr>txt_files := txt_files self @
                   [\<lparr>txt_file = f, human_of = predn, with_conf = conf,
                     im_shape = (ns ! 0, ns ! 1)\<rparr>]\<rparr>))
      | PathsV ss \<Rightarrow> (if length ss < 2 then (Some IndexError, self) else (Some TypeError, self))
      | TensorV t \<Rightarrow>
          (if length (rows t) < 2 then (Some IndexError, self)
           else (case as_size (tdtype t) (rows t ! 0) of
                   Inl e \<Rightarrow> (Some e, self)
                 | Inr h \<Rightarrow>
                     (case as_size (tdtype t) (rows t ! 1) of
                        Inl e \<Rightarrow> (Some e, self)
                      | Inr w \<Rightarrow>
                          (None, self\<lparr>txt_files := txt_files self @
                             [\<lparr>txt_file = f, human_of = predn, with_conf = conf,
                               im_shape = (h, w)\<rparr>]\<rparr>)))))"

text \<open>The loop of lines 83 to 85, \<open>i\<close> counting the predictions already handled.\<close>

fun save_loop :: "validator \<Rightarrow> batch \<Rightarrow> nat \<Rightarrow> fl list list \<Rightarrow> error option \<times> validator" where
  "save_loop self batch i [] = (None, self)"
| "save_loop self batch i (pred # rest) =
     (case batch ''im_file'' of
        None \<Rightarrow> (Some KeyError, self)
      | Some (PathsV fs) \<Rightarrow>
          (if i < length fs then
             (case batch ''ori_shape'' of
                None \<Rightarrow> (Some KeyError, self)
              | Some shape \<Rightarrow>
                  (case save_one_txt self pred (save_conf (args self)) shape
                          (save_dir self @ [''labels'', stem (fs ! i) @ ''.txt'']) of
                     (Some e, self') \<Rightarrow> (Some e, self')
                   | (None, self') \<Rightarrow> save_loop self' batch (Suc i) rest))
           else (Some IndexError, self))
      | Some (TensorV t) \<Rightarrow>
          (if i < length (rows t) then (Some TypeError, self) else (Some IndexError, self))
      | Some (ShapeV ns) \<Rightarrow>
          (if i < length ns then (Some TypeError, self) else (Some IndexError, self)))"

text \<open>Lines 76 to 80: what is appended under which key, the continuous scores clipped.\<close>

definition stat_entries :: "accs \<Rightarrow> (string \<times> fl list) list" where
  "stat_entries a =
     [(''weight'', map (fl_clip 0 1) (acc_w a)),
      (''height'', map (fl_clip 0 1) (acc_h a)),
      (''gender'', acc_g a),
      (''age'', map (fl_clip 0 1) (acc_a a)),
      (''ethnicity'', acc_e a)]"

text \<open>
  \<^verbatim>\<open>update_metrics\<close>, in the arithmetic whose rounding is \<open>rnd\<close>. The result is the error
  raised, if any, and the validator as the call leaves it, also when it raises.
\<close>

definition update_metrics ::
  "rounding \<Rightarrow> validator \<Rightarrow> human \<Rightarrow> batch \<Rightarrow> error option \<times> validator" where
  "update_metrics rnd self preds batch =
     (case batch ''attributes'' of
        None \<Rightarrow> (Some KeyError, self)
      | Some (TensorV gt_attrs) \<Rightarrow>
          (case accuracies rnd preds gt_attrs of
             Inl e \<Rightarrow> (Some e, self)
           | Inr a \<Rightarrow>
               (case append_all (stat_entries a) (metrics self) of
                  (Some e, m) \<Rightarrow> (Some e, self\<lparr>metrics := m\<rparr>)
                | (None, m) \<Rightarrow>
                    (if save_txt (args self)
                     then save_loop (self\<lparr>metrics := m\<rparr>) batch 0 (items preds)
                     else (None, self\<lparr>metrics := m\<rparr>))))
      | Some (PathsV ss) \<Rightarrow> (Some TypeError, self)
      | Some (ShapeV ns) \<Rightarrow> (Some TypeError, self))"

text \<open>The host's loop over the batches, as far as \<^verbatim>\<open>update_metrics\<close> goes: it stops at the
  first call that raises.\<close>

fun update_all ::
  "rounding \<Rightarrow> validator \<Rightarrow> (human \<times> batch) list \<Rightarrow> error option \<times> validator" where
  "update_all rnd self [] = (None, self)"
| "update_all rnd self ((preds, batch) # rest) =
     (case update_metrics rnd self preds batch of
        (Some e, self') \<Rightarrow> (Some e, self')
      | (None, self') \<Rightarrow> update_all rnd self' rest)"

section \<open>Construction and finalisation\<close>

text \<open>
  Modelled from the spec: the class \<^verbatim>\<open>HumanMetrics\<close> of \<^verbatim>\<open>ultralytics.utils.metrics\<close> is not
  among the sources. The spec describes the accumulator as collecting per-batch
  per-attribute accuracy arrays; a new one has collected none, for each of the five
  attributes.
\<close>

definition HumanMetrics :: human_metrics where
  "HumanMetrics =
     \<lparr>attrs_stats =
        [''weight'' \<mapsto> [], ''height'' \<mapsto> [], ''gender'' \<mapsto> [], ''age'' \<mapsto> [], ''ethnicity'' \<mapsto> []],
      metrics_speed = [], metrics_confusion_matrix = None\<rparr>"

text \<open>
  \<^verbatim>\<open>__init__\<close>, applied to the object as the constructor of \<^verbatim>\<open>BaseValidator\<close> leaves it
  (that class is outside the sources; its result is the argument \<open>base\<close>).
\<close>

definition init :: "validator \<Rightarrow> validator" where
  "init base = base\<lparr>args := (args base)\<lparr>task := ''human''\<rparr>, metrics := HumanMetrics\<rparr>"

definition finalize_metrics :: "validator \<Rightarrow> validator" where
  "finalize_metrics self =
     self\<lparr>metrics := (metrics self)\<lparr>metrics_speed := speed self,
                                     metrics_confusion_matrix := confusion_matrix self\<rparr>\<rparr>"

section \<open>preprocess and postprocess\<close>







text \<open>The values \<^verbatim>\<open>postprocess\<close> can be handed: a tensor, a tuple, a list, \<^verbatim>\<open>None\<close>.\<close>

datatype pyval = TensorP tensor | TupleP "pyval list" | ListP "pyval list" | NoneP

fun is_sequence :: "pyval \<Rightarrow> bool" where
  "is_sequence (TupleP xs) = True"
| "is_sequence (ListP xs) = True"
| "is_sequence (TensorP t) = False"
| "is_sequence NoneP = False"

fun elements :: "pyval \<Rightarrow> pyval list" where
  "elements (TupleP xs) = xs"
| "elements (ListP xs) = xs"
| "elements (TensorP t) = []"
| "elements NoneP = []"

text \<open>\<^verbatim>\<open>preds[0] if isinstance(preds, (tuple, list)) else preds\<close>\<close>

definition postprocess :: "pyval \<Rightarrow> error + pyval" where
  "postprocess preds =
     (if is_sequence preds
      then (case elements preds of [] \<Rightarrow> Inl IndexError | x # xs \<Rightarrow> Inr x)
      else Inr preds)"

section \<open>plot_predictions\<close>

text \<open>The order \<^verbatim>\<open><\<close> on elements; every comparison with NaN is false.\<close>

fun fl_less :: "fl \<Rightarrow> fl \<Rightarrow> bool" where
  "fl_less (Fin a) (Fin b) = (a < b)"
| "fl_less (Fin a) NZero = (a < 0)"
| "fl_less NZero (Fin b) = (0 < b)"
| "fl_less (Fin a) PInf = True"
| "fl_less NZero PInf = True"
| "fl_less NInf (Fin b) = True"
| "fl_less NInf NZero = True"
| "fl_less NInf PInf = True"
| "fl_less x y = False"

text \<open>
  \<^verbatim>\<open>argmax\<close> keeps the first of several maximal entries and counts NaN as above every
  number: a later entry \<open>a\<close> replaces the best one so far, \<open>b\<close>, when this holds.
\<close>

definition greater_or_nan :: "fl \<Rightarrow> fl \<Rightarrow> bool" where
  "greater_or_nan a b = (if a = NaN then b \<noteq> NaN else fl_less b a)"

fun argmax_from :: "nat \<Rightarrow> fl \<Rightarrow> nat \<Rightarrow> fl list \<Rightarrow> nat" where
  "argmax_from best b i [] = best"
| "argmax_from best b i (x # xs) =
     (if greater_or_nan x b then argmax_from i x (Suc i) xs
      else argmax_from best b (Suc i) xs)"

definition argmax_row :: "fl list \<Rightarrow> nat" where
  "argmax_row r = (case r of [] \<Rightarrow> 0 | x # xs \<Rightarrow> argmax_from 0 x 1 xs)"

text \<open>
  \<^verbatim>\<open>t[:, a:b].argmax(1, keepdim=True)\<close>: a slice of columns never raises, the reduction over
  an empty range of columns does.
\<close>

definition argmax_cols :: "nat \<Rightarrow> nat \<Rightarrow> tensor \<Rightarrow> error + nat list" where
  "argmax_cols a b t =
     (if min b (ncols t) \<le> a then Inl IndexError
      else Inr (map (\<lambda>r. argmax_row (take (b - a) (drop a r))) (rows t)))"

text \<open>
  The \<^verbatim>\<open>attributes\<close> argument that \<^verbatim>\<open>plot_predictions\<close> hands to \<^verbatim>\<open>plot_images\<close> (lines 138,
  139 and 144); the class indices join the floats as floats.
\<close>

definition plot_predictions_attributes :: "tensor \<Rightarrow> error + fl list list" where
  "plot_predictions_attributes preds =
     bind_e (argmax_cols 3 5 preds) (\<lambda>pred_gender.
     bind_e (argmax_cols 5 (ncols preds) preds) (\<lambda>pred_ethnicity.
     Inr (map (\<lambda>(r, g, e). take 2 r @ [Fin (real g)] @ take 1 (drop 2 r) @ [Fin (real e)])
            (zip (rows preds) (zip pred_gender pred_ethnicity)))))"

section \<open>The statements of the specification\<close>

text \<open>
  \<^verbatim>\<open>clip(1 - |predicted - ground_truth| / ground_truth, 0, 1)\<close>: on two elements, in the
  arithmetic of the tensors, and on two numbers, in exact arithmetic.
\<close>

definition float_score :: "rounding \<Rightarrow> fl \<Rightarrow> fl \<Rightarrow> fl" where
  "float_score rnd p g =
     fl_clip 0 1 (fl_sub rnd (Fin 1) (fl_div rnd (fl_abs (fl_sub rnd p g)) g))"

definition clip_score :: "real \<Rightarrow> real \<Rightarrow> real" where
  "clip_score p g = min (max (1 - \<bar>p - g\<bar> / g) 0) 1"

text \<open>A ground-truth element that is positive.\<close>

fun positive :: "fl \<Rightarrow> bool" where
  "positive (Fin a) = (0 < a)"
| "positive PInf = True"
| "positive x = False"

text \<open>
  The array one call has appended under a key: the list under the key afterwards is the
  list before with one more entry, which is returned.
\<close>

definition appended :: "validator \<Rightarrow> validator \<Rightarrow> string \<Rightarrow> fl list option" where
  "appended self self' k =
     (case (attrs_stats (metrics self) k, attrs_stats (metrics self') k) of
        (Some old, Some new) \<Rightarrow>
          (if new \<noteq> [] \<and> butlast new = old then Some (last new) else None)
      | (Some old, None) \<Rightarrow> None
      | (None, new) \<Rightarrow> None)"

definition attr_names :: "string list" where
  "attr_names = [''weight'', ''height'', ''gender'', ''age'', ''ethnicity'']"

definition stat_length :: "validator \<Rightarrow> string \<Rightarrow> nat option" where
  "stat_length self k = map_option length (attrs_stats (metrics self) k)"



text \<open>
  The layout of a prediction row in the words of the specification: weight, height, the
  two gender logits, age, the ethnicity logits; and the display row it would give.
\<close>

definition spec_display_row :: "fl list \<Rightarrow> fl list" where
  "spec_display_row r =
     [r ! 0, r ! 1, Fin (real (argmax_row [r ! 2, r ! 3])), r ! 4,
      Fin (real (argmax_row (drop 5 r)))]"

text \<open>The layout \<^verbatim>\<open>plot_predictions\<close> reads: weight, height, age, the two gender logits, the
  ethnicity logits.\<close>

definition code_display_row :: "fl list \<Rightarrow> fl list" where
  "code_display_row r =
     [r ! 0, r ! 1, Fin (real (argmax_row [r ! 3, r ! 4])), r ! 2,
      Fin (real (argmax_row (drop 5 r)))]"

section \<open>A validation batch\<close>

text \<open>
  One rounding for the examples: to the nearest multiple of 1/16777216, which is 2 to the
  power -24. The theorems hold for every rounding.
\<close>

definition round_fixed :: rounding where
  "round_fixed x = Fin (of_int (round (x * 2 ^ 24)) / 2 ^ 24)"

definition demo_validator :: validator where
  "demo_validator =
     \<lparr>args = \<lparr>task = ''detect'', half = False, save_txt = True, save_conf = False, workers = 0\<rparr>,
      device = CUDA 0, save_dir = [''runs'', ''val''], metrics = HumanMetrics,
      speed = [], confusion_matrix = None, txt_files = []\<rparr>"

definition demo_pred_rows :: "fl list list" where
  "demo_pred_rows =
     [[Fin 60, Fin 150, Fin 20, Fin 2, Fin 1, Fin 0, Fin 0, Fin 5, Fin 0, Fin 0, Fin 0],
      [Fin 90, Fin 180, Fin 50, Fin 1, Fin 3, Fin 0, Fin 0, Fin 0, Fin 4, Fin 0, Fin 0]]"

definition demo_preds :: human where
  "demo_preds =
     \<lparr>weight = [Fin 60, Fin 90], height = [Fin 150, Fin 180], cls_gender = [Fin 0, Fin 1],
      age = [Fin 20, Fin 50], cls_ethnicity = [Fin 2, Fin 3], items = demo_pred_rows\<rparr>"

definition demo_gt :: tensor where
  "demo_gt =
     \<lparr>tdevice = CPU, tdtype = Float64, ncols = 5,
      rows = [[Fin 80, Fin 160, Fin 0, Fin 40, Fin 2], [Fin 60, Fin 200, Fin 0, Fin 25, Fin 3]]\<rparr>"

definition demo_img :: tensor where
  "demo_img = \<lparr>tdevice = CPU, tdtype = UInt8, ncols = 0, rows = [[], []]\<rparr>"

definition demo_batch :: batch where
  "demo_batch =
     [''img'' \<mapsto> TensorV demo_img,
      ''attributes'' \<mapsto> TensorV demo_gt,
      ''im_file'' \<mapsto> PathsV [''/data/val/0001.jpg'', ''/data/val/img.0002.png''],
      ''ori_shape'' \<mapsto> ShapeV [480, 640]]"


text \<open>The raw predictions of the two samples, as \<^verbatim>\<open>plot_predictions\<close> receives them.\<close>

definition demo_pred_tensor :: tensor where
  "demo_pred_tensor = \<lparr>tdevice = CUDA 0, tdtype = Float32, ncols = 11, rows = demo_pred_rows\<rparr>"

text \<open>A sample whose ground-truth weight is 0 and whose predicted weight is 0.\<close>

definition zero_preds :: human where
  "zero_preds =
     \<lparr>weight = [Fin 0], height = [Fin 170], cls_gender = [Fin 1], age = [Fin 30],
      cls_ethnicity = [Fin 2],
      items = [[Fin 0, Fin 170, Fin 30, Fin 0, Fin 1, Fin 0, Fin 0, Fin 1, Fin 0, Fin 0, Fin 0]]\<rparr>"

definition zero_batch :: batch where
  "zero_batch =
     [''attributes'' \<mapsto>
        TensorV \<lparr>tdevice = CPU, tdtype = Float32, ncols = 5,
                 rows = [[Fin 0, Fin 170, Fin 1, Fin 30, Fin 2]]\<rparr>,
      ''im_file'' \<mapsto> PathsV [''/data/val/0003.jpg''],
      ''ori_shape'' \<mapsto> ShapeV [480, 640]]"






section \<open>Facts about update_metrics\<close>

lemma bind_e_Inr: "bind_e r f = Inr y \<longleftrightarrow> (\<exists>x. r = Inr x \<and> f x = Inr y)"
  by (cases r) (simp_all add: bind_e_def)

lemma rel_acc_aligned:
  "length p = length g \<Longrightarrow>
   rel_acc rnd p g = Inr (map2 (\<lambda>x y. fl_sub rnd (Fin 1) (fl_div rnd (fl_abs (fl_sub rnd x y)) y)) p g)"
  by (simp add: rel_acc_def broadcast_def bind_e_def list_eq_iff_nth_eq)

lemma match_acc_aligned:
  "length c = length g \<Longrightarrow> match_acc c g = Inr (map2 (\<lambda>x y. bool_float (fl_eq x y)) c g)"
  by (simp add: match_acc_def broadcast_def bind_e_def list_eq_iff_nth_eq)

lemma save_one_txt_metrics: "metrics (snd (save_one_txt s p c sh f)) = metrics s"
  by (simp add: save_one_txt_def split: bval.splits sum.splits)

lemma save_loop_metrics: "metrics (snd (save_loop s b i ps)) = metrics s"
proof (induction ps arbitrary: s i)
  case Nil
  show ?case by simp
next
  case (Cons p ps)
  show ?case
  proof (cases "b ''im_file''")
    case None
    then show ?thesis by simp
  next
    case (Some v)
    show ?thesis
    proof (cases v)
      case (PathsV fs)
      show ?thesis
      proof (cases "i < length fs")
        case False
        with Some PathsV show ?thesis by simp
      next
        case True
        show ?thesis
        proof (cases "b ''ori_shape''")
          case None
          with Some PathsV True show ?thesis by simp
        next
          case (Some shape)
          obtain r s' where R: "save_one_txt s p (save_conf (args s)) shape
              (save_dir s @ [''labels'', stem (fs ! i) @ ''.txt'']) = (r, s')"
            by (cases "save_one_txt s p (save_conf (args s)) shape
              (save_dir s @ [''labels'', stem (fs ! i) @ ''.txt''])") auto
          have M: "metrics s' = metrics s"
            using save_one_txt_metrics [of s p "save_conf (args s)" shape
              "save_dir s @ [''labels'', stem (fs ! i) @ ''.txt'']"] R by simp
          show ?thesis
            using \<open>b ''im_file'' = Some v\<close> PathsV True Some R M Cons.IH [of s' "Suc i"]
            by (cases r) simp_all
        qed
      qed
    next
      case (TensorV t)
      with Some show ?thesis by simp
    next
      case (ShapeV ns)
      with Some show ?thesis by simp
    qed
  qed
qed

lemma append_stat_Inr:
  "append_stat k a m = Inr m' \<longleftrightarrow>
     (\<exists>l. attrs_stats m k = Some l \<and> m' = m\<lparr>attrs_stats := (attrs_stats m)(k \<mapsto> l @ [a])\<rparr>)"
  by (auto simp: append_stat_def split: option.splits)

lemma append_all_None:
  "append_all kas m = (None, m') \<Longrightarrow> distinct (map fst kas) \<Longrightarrow>
   attrs_stats m' k =
     (case map_of kas k of
        None \<Rightarrow> attrs_stats m k
      | Some a \<Rightarrow> map_option (\<lambda>l. l @ [a]) (attrs_stats m k))
   \<and> (k \<in> fst ` set kas \<longrightarrow> attrs_stats m k \<noteq> None)"
proof (induction kas arbitrary: m)
  case Nil
  then show ?case by simp
next
  case (Cons ka kas)
  obtain k0 a0 where ka: "ka = (k0, a0)" by (cases ka)
  from Cons.prems(1) ka obtain m1 where
    A: "append_stat k0 a0 m = Inr m1" and B: "append_all kas m1 = (None, m')"
    by (auto split: sum.splits)
  from A obtain l where L: "attrs_stats m k0 = Some l"
    and M1: "m1 = m\<lparr>attrs_stats := (attrs_stats m)(k0 \<mapsto> l @ [a0])\<rparr>"
    by (auto simp: append_stat_Inr)
  from Cons.prems(2) ka have D: "distinct (map fst kas)" and N: "k0 \<notin> fst ` set kas"
    by auto
  note IH = Cons.IH [OF B D]
  show ?case
  proof (cases "k = k0")
    case True
    with N have "map_of kas k = None" by (simp add: map_of_eq_None_iff)
    with IH True L M1 ka show ?thesis by simp
  next
    case False
    with M1 have "attrs_stats m1 k = attrs_stats m k" by simp
    with IH False ka show ?thesis by (simp split: option.splits)
  qed
qed


lemma update_metrics_None:
  assumes "update_metrics rnd self preds batch = (None, self')"
  shows "\<exists>gt a. batch ''attributes'' = Some (TensorV gt) \<and> accuracies rnd preds gt = Inr a \<and>
           append_all (stat_entries a) (metrics self) = (None, metrics self')"
proof -
  from assms obtain gt where G: "batch ''attributes'' = Some (TensorV gt)"
    by (auto simp: update_metrics_def split: option.splits bval.splits)
  from assms G obtain a where A: "accuracies rnd preds gt = Inr a"
    by (auto simp: update_metrics_def split: sum.splits)
  obtain r m where R: "append_all (stat_entries a) (metrics self) = (r, m)"
    by (cases "append_all (stat_entries a) (metrics self)") auto
  have "r = None \<and> m = metrics self'"
  proof (cases r)
    case (Some e)
    with assms G A R show ?thesis
      by (simp add: update_metrics_def stat_entries_def)
  next
    case None
    show ?thesis
    proof (cases "save_txt (args self)")
      case False
      with assms G A R None show ?thesis
        by (auto simp: update_metrics_def stat_entries_def)
    next
      case True
      with assms G A R None
      have "save_loop (self\<lparr>metrics := m\<rparr>) batch 0 (items preds) = (None, self')"
        by (simp add: update_metrics_def stat_entries_def)
      then have "metrics self' = m"
        using save_loop_metrics [of "self\<lparr>metrics := m\<rparr>" batch 0 "items preds"] by simp
      with None show ?thesis by simp
    qed
  qed
  with G A R show ?thesis by blast
qed

lemma appended_entries:
  assumes "append_all (stat_entries a) (metrics self) = (None, metrics self')"
    and "(k, arr) \<in> set (stat_entries a)"
  shows "appended self self' k = Some arr"
proof -
  have D: "distinct (map fst (stat_entries a))"
    by (simp add: stat_entries_def)
  from assms(2) D have M: "map_of (stat_entries a) k = Some arr"
    by simp
  from assms(2) have K: "k \<in> fst ` set (stat_entries a)"
    by force
  from append_all_None [OF assms(1) D, of k] M K
  obtain old where "attrs_stats (metrics self) k = Some old"
    and "attrs_stats (metrics self') k = Some (old @ [arr])"
    by auto
  then show ?thesis by (simp add: appended_def)
qed

lemma column_Inr: "column t k = Inr c \<longleftrightarrow> k < ncols t \<and> c = map (\<lambda>r. r ! k) (rows t)"
  by (auto simp: column_def)

lemma accuracies_Inr:
  assumes "accuracies rnd preds gt = Inr a"
  shows "rel_acc rnd (weight preds) (map (\<lambda>r. r ! 0) (rows gt)) = Inr (acc_w a)"
    and "rel_acc rnd (height preds) (map (\<lambda>r. r ! 1) (rows gt)) = Inr (acc_h a)"
    and "match_acc (cls_gender preds) (map (\<lambda>r. r ! 2) (rows gt)) = Inr (acc_g a)"
    and "rel_acc rnd (age preds) (map (\<lambda>r. r ! 3) (rows gt)) = Inr (acc_a a)"
    and "match_acc (cls_ethnicity preds) (map (\<lambda>r. r ! 4) (rows gt)) = Inr (acc_e a)"
    and "4 < ncols gt"
  using assms by (auto simp: accuracies_def bind_e_Inr column_Inr)

lemma rel_acc_nth:
  assumes "rel_acc rnd ps gs = Inr r" and "length ps = length gs" and "i < length gs"
  shows "map (fl_clip 0 1) r ! i = float_score rnd (ps ! i) (gs ! i)"
proof -
  from assms(1,2) have
    "r = map2 (\<lambda>x y. fl_sub rnd (Fin 1) (fl_div rnd (fl_abs (fl_sub rnd x y)) y)) ps gs"
    by (simp add: rel_acc_aligned)
  with assms(2,3) show ?thesis
    by (simp add: float_score_def)
qed

lemma float_score_exact:
  assumes "0 < g" and "rnd (p - g) = Fin (p - g)"
    and "rnd (\<bar>p - g\<bar> / g) = Fin (\<bar>p - g\<bar> / g)"
    and "rnd (1 - \<bar>p - g\<bar> / g) = Fin (1 - \<bar>p - g\<bar> / g)"
  shows "float_score rnd (Fin p) (Fin g) = Fin (clip_score p g)"
proof -
  have S: "fl_sub rnd (Fin p) (Fin g) = Fin (p - g)"
    using assms(2) by simp
  have D: "fl_div rnd (Fin \<bar>p - g\<bar>) (Fin g) = Fin (\<bar>p - g\<bar> / g)"
    using assms(1,3) by simp
  have O: "fl_sub rnd (Fin 1) (Fin (\<bar>p - g\<bar> / g)) = Fin (1 - \<bar>p - g\<bar> / g)"
    using assms(4) by simp
  show ?thesis
    unfolding float_score_def S fl_abs.simps D O
    by (simp add: clip_score_def)
qed

text \<open>
  C1: for a pair of a prediction and a ground truth whose ground-truth weight, height or
  age is positive, the score appended for that attribute is
  \<^verbatim>\<open>clip(1 - |predicted - ground_truth| / ground_truth, 0, 1)\<close>, computed in the arithmetic
  of the tensors, whatever the predicted element is; where that arithmetic is exact on
  the three intermediate results, it is the number 1 minus the relative absolute error,
  clipped to [0, 1].
\<close>

theorem continuous_accuracy:
  assumes "update_metrics rnd self preds batch = (None, self')"
    and "batch ''attributes'' = Some (TensorV gt)"
    and "i < length (rows gt)"
  shows "(length (weight preds) = length (rows gt) \<and> positive (rows gt ! i ! 0)
          \<longrightarrow> map_option (\<lambda>arr. arr ! i) (appended self self' ''weight'') =
                Some (float_score rnd (weight preds ! i) (rows gt ! i ! 0)))
       \<and> (length (height preds) = length (rows gt) \<and> positive (rows gt ! i ! 1)
          \<longrightarrow> map_option (\<lambda>arr. arr ! i) (appended self self' ''height'') =
                Some (float_score rnd (height preds ! i) (rows gt ! i ! 1)))
       \<and> (length (age preds) = length (rows gt) \<and> positive (rows gt ! i ! 3)
          \<longrightarrow> map_option (\<lambda>arr. arr ! i) (appended self self' ''age'') =
                Some (float_score rnd (age preds ! i) (rows gt ! i ! 3)))
       \<and> (0 < g \<and> rnd (p - g) = Fin (p - g) \<and> rnd (\<bar>p - g\<bar> / g) = Fin (\<bar>p - g\<bar> / g) \<and>
            rnd (1 - \<bar>p - g\<bar> / g) = Fin (1 - \<bar>p - g\<bar> / g)
          \<longrightarrow> float_score rnd (Fin p) (Fin g) = Fin (clip_score p g))"
proof -
  from update_metrics_None [OF assms(1)] assms(2) obtain a where
    A: "accuracies rnd preds gt = Inr a" and
    B: "append_all (stat_entries a) (metrics self) = (None, metrics self')"
    by auto
  have W: "appended self self' ''weight'' = Some (map (fl_clip 0 1) (acc_w a))"
    by (rule appended_entries [OF B]) (simp add: stat_entries_def)
  have H: "appended self self' ''height'' = Some (map (fl_clip 0 1) (acc_h a))"
    by (rule appended_entries [OF B]) (simp add: stat_entries_def)
  have G: "appended self self' ''age'' = Some (map (fl_clip 0 1) (acc_a a))"
    by (rule appended_entries [OF B]) (simp add: stat_entries_def)
  note R = accuracies_Inr [OF A]
  have "map_option (\<lambda>arr. arr ! i) (appended self self' ''weight'') =
          Some (float_score rnd (weight preds ! i) (rows gt ! i ! 0))"
    if L: "length (weight preds) = length (rows gt)"
  proof -
    have "map (fl_clip 0 1) (acc_w a) ! i =
            float_score rnd (weight preds ! i) (map (\<lambda>r. r ! 0) (rows gt) ! i)"
      by (rule rel_acc_nth [OF R(1)]) (use L assms(3) in simp_all)
    with W assms(3) show ?thesis by simp
  qed
  moreover
  have "map_option (\<lambda>arr. arr ! i) (appended self self' ''height'') =
          Some (float_score rnd (height preds ! i) (rows gt ! i ! 1))"
    if L: "length (height preds) = length (rows gt)"
  proof -
    have "map (fl_clip 0 1) (acc_h a) ! i =
            float_score rnd (height preds ! i) (map (\<lambda>r. r ! 1) (rows gt) ! i)"
      by (rule rel_acc_nth [OF R(2)]) (use L assms(3) in simp_all)
    with H assms(3) show ?thesis by simp
  qed
  moreover
  have "map_option (\<lambda>arr. arr ! i) (appended self self' ''age'') =
          Some (float_score rnd (age preds ! i) (rows gt ! i ! 3))"
    if L: "length (age preds) = length (rows gt)"
  proof -
    have "map (fl_clip 0 1) (acc_a a) ! i =
            float_score rnd (age preds ! i) (map (\<lambda>r. r ! 3) (rows gt) ! i)"
      by (rule rel_acc_nth [OF R(4)]) (use L assms(3) in simp_all)
    with G assms(3) show ?thesis by simp
  qed
  moreover
  have "float_score rnd (Fin p) (Fin g) = Fin (clip_score p g)"
    if "0 < g" "rnd (p - g) = Fin (p - g)" "rnd (\<bar>p - g\<bar> / g) = Fin (\<bar>p - g\<bar> / g)"
       "rnd (1 - \<bar>p - g\<bar> / g) = Fin (1 - \<bar>p - g\<bar> / g)"
    using that by (rule float_score_exact)
  ultimately show ?thesis by blast
qed

lemma demo_run: "fst (update_metrics round_fixed demo_validator demo_preds demo_batch) = None"
  by code_simp

lemma demo_attributes: "demo_batch ''attributes'' = Some (TensorV demo_gt)"
  by (simp add: demo_batch_def)

lemma demo_scores:
  "float_score round_fixed (Fin 60) (Fin 80) = Fin (3 / 4)"
  "float_score round_fixed (Fin 180) (Fin 200) = Fin (7549747 / 8388608)"
  "float_score round_fixed (Fin 20) (Fin 40) = Fin (1 / 2)"
  by (simp_all add: float_score_def round_fixed_def round_def)

theorem continuous_accuracy_witness:
  "fst (update_metrics round_fixed demo_validator demo_preds demo_batch) = None \<and>
   map_option (\<lambda>arr. arr ! 0)
     (appended demo_validator
        (snd (update_metrics round_fixed demo_validator demo_preds demo_batch))
        ''weight'') = Some (Fin (3 / 4)) \<and>
   map_option (\<lambda>arr. arr ! 1)
     (appended demo_validator
        (snd (update_metrics round_fixed demo_validator demo_preds demo_batch))
        ''height'') = Some (Fin (7549747 / 8388608)) \<and>
   map_option (\<lambda>arr. arr ! 0)
     (appended demo_validator
        (snd (update_metrics round_fixed demo_validator demo_preds demo_batch))
        ''age'') = Some (Fin (1 / 2)) \<and>
   float_score round_fixed (Fin 60) (Fin 80) = Fin (clip_score 60 80)"
proof -
  have R: "update_metrics round_fixed demo_validator demo_preds demo_batch =
             (None, snd (update_metrics round_fixed demo_validator demo_preds demo_batch))"
    using demo_run by (simp add: prod_eq_iff)
  have I0: "0 < length (rows demo_gt)" and I1: "1 < length (rows demo_gt)"
    by (simp_all add: demo_gt_def)
  have X: "round_fixed (60 - 80) = Fin (60 - 80)"
    "round_fixed (\<bar>60 - 80\<bar> / 80) = Fin (\<bar>60 - 80\<bar> / 80)"
    "round_fixed (1 - \<bar>60 - 80\<bar> / 80) = Fin (1 - \<bar>60 - 80\<bar> / 80)"
    by (simp_all add: round_fixed_def round_def)
  from continuous_accuracy [OF R demo_attributes I0, of 80 60] X
  have A: "map_option (\<lambda>arr. arr ! 0)
     (appended demo_validator
        (snd (update_metrics round_fixed demo_validator demo_preds demo_batch))
        ''weight'') = Some (Fin (3 / 4))"
    and C: "map_option (\<lambda>arr. arr ! 0)
     (appended demo_validator
        (snd (update_metrics round_fixed demo_validator demo_preds demo_batch))
        ''age'') = Some (Fin (1 / 2))"
    and D: "float_score round_fixed (Fin 60) (Fin 80) = Fin (clip_score 60 80)"
    by (simp_all add: demo_preds_def demo_gt_def demo_scores)
  from continuous_accuracy [OF R demo_attributes I1, of 80 60]
  have B: "map_option (\<lambda>arr. arr ! 1)
     (appended demo_validator
        (snd (update_metrics round_fixed demo_validator demo_preds demo_batch))
        ''height'') = Some (Fin (7549747 / 8388608))"
    by (simp add: demo_preds_def demo_gt_def demo_scores)
  from A B C D demo_run show ?thesis
    by simp
qed

lemma match_acc_nth:
  assumes "match_acc cs gs = Inr r" and "length cs = length gs" and "i < length gs"
    and "cs ! i = Fin c" and "gs ! i = Fin g"
  shows "r ! i = (if c = g then Fin 1 else Fin 0)"
proof -
  from assms(1,2) have "r = map2 (\<lambda>x y. bool_float (fl_eq x y)) cs gs"
    by (simp add: match_acc_aligned)
  with assms(2,3) have "r ! i = bool_float (fl_eq (cs ! i) (gs ! i))"
    by simp
  then show ?thesis
    unfolding assms(4,5) by (simp add: bool_float_def)
qed

text \<open>
  C2: for a pair of a prediction and a ground truth, the score appended for gender or
  ethnicity is 1.0 when the predicted class equals the ground-truth class and 0.0
  otherwise.
\<close>

theorem categorical_accuracy:
  assumes "update_metrics rnd self preds batch = (None, self')"
    and "batch ''attributes'' = Some (TensorV gt)"
    and "i < length (rows gt)"
  shows "(length (cls_gender preds) = length (rows gt) \<and> cls_gender preds ! i = Fin c \<and>
            rows gt ! i ! 2 = Fin g
          \<longrightarrow> map_option (\<lambda>arr. arr ! i) (appended self self' ''gender'') =
                Some (if c = g then Fin 1 else Fin 0))
       \<and> (length (cls_ethnicity preds) = length (rows gt) \<and> cls_ethnicity preds ! i = Fin c \<and>
            rows gt ! i ! 4 = Fin g
          \<longrightarrow> map_option (\<lambda>arr. arr ! i) (appended self self' ''ethnicity'') =
                Some (if c = g then Fin 1 else Fin 0))"
proof -
  from update_metrics_None [OF assms(1)] assms(2) obtain a where
    A: "accuracies rnd preds gt = Inr a" and
    B: "append_all (stat_entries a) (metrics self) = (None, metrics self')"
    by auto
  have G: "appended self self' ''gender'' = Some (acc_g a)"
    by (rule appended_entries [OF B]) (simp add: stat_entries_def)
  have E: "appended self self' ''ethnicity'' = Some (acc_e a)"
    by (rule appended_entries [OF B]) (simp add: stat_entries_def)
  note R = accuracies_Inr [OF A]
  have "map_option (\<lambda>arr. arr ! i) (appended self self' ''gender'') =
          Some (if c = g then Fin 1 else Fin 0)"
    if L: "length (cls_gender preds) = length (rows gt)" and P: "cls_gender preds ! i = Fin c"
      and T: "rows gt ! i ! 2 = Fin g"
  proof -
    have "acc_g a ! i = (if c = g then Fin 1 else Fin 0)"
      by (rule match_acc_nth [OF R(3) _ _ P]) (use L T assms(3) in simp_all)
    with G show ?thesis by simp
  qed
  moreover
  have "map_option (\<lambda>arr. arr ! i) (appended self self' ''ethnicity'') =
          Some (if c = g then Fin 1 else Fin 0)"
    if L: "length (cls_ethnicity preds) = length (rows gt)"
      and P: "cls_ethnicity preds ! i = Fin c" and T: "rows gt ! i ! 4 = Fin g"
  proof -
    have "acc_e a ! i = (if c = g then Fin 1 else Fin 0)"
      by (rule match_acc_nth [OF R(5) _ _ P]) (use L T assms(3) in simp_all)
    with E show ?thesis by simp
  qed
  ultimately show ?thesis by blast
qed

theorem categorical_accuracy_witness:
  "fst (update_metrics round_fixed demo_validator demo_preds demo_batch) = None \<and>
   map_option (\<lambda>arr. arr ! 0)
     (appended demo_validator (snd (update_metrics round_fixed demo_validator demo_preds demo_batch))
        ''gender'') = Some (Fin 1) \<and>
   map_option (\<lambda>arr. arr ! 1)
     (appended demo_validator (snd (update_metrics round_fixed demo_validator demo_preds demo_batch))
        ''gender'') = Some (Fin 0) \<and>
   map_option (\<lambda>arr. arr ! 1)
     (appended demo_validator (snd (update_metrics round_fixed demo_validator demo_preds demo_batch))
        ''ethnicity'') = Some (Fin 1)"
proof -
  have R: "update_metrics round_fixed demo_validator demo_preds demo_batch =
             (None, snd (update_metrics round_fixed demo_validator demo_preds demo_batch))"
    using demo_run by (simp add: prod_eq_iff)
  have I0: "0 < length (rows demo_gt)" and I1: "1 < length (rows demo_gt)"
    by (simp_all add: demo_gt_def)
  have "map_option (\<lambda>arr. arr ! 0)
     (appended demo_validator (snd (update_metrics round_fixed demo_validator demo_preds demo_batch))
        ''gender'') = Some (Fin 1)"
    using categorical_accuracy [OF R demo_attributes I0, of 0 0]
    by (simp add: demo_preds_def demo_gt_def)
  moreover
  have "map_option (\<lambda>arr. arr ! 1)
     (appended demo_validator (snd (update_metrics round_fixed demo_validator demo_preds demo_batch))
        ''gender'') = Some (Fin 0)"
    using categorical_accuracy [OF R demo_attributes I1, of 1 0]
    by (simp add: demo_preds_def demo_gt_def)
  moreover
  have "map_option (\<lambda>arr. arr ! 1)
     (appended demo_validator (snd (update_metrics round_fixed demo_validator demo_preds demo_batch))
        ''ethnicity'') = Some (Fin 1)"
    using categorical_accuracy [OF R demo_attributes I1, of 3 3]
    by (simp add: demo_preds_def demo_gt_def)
  ultimately show ?thesis
    using demo_run by simp
qed

lemma clip_unit_or_nan: "fl_clip 0 1 x = NaN \<or> in_unit (fl_clip 0 1 x)"
  by (cases x) simp_all

lemma bool_float_unit: "in_unit (bool_float b)"
  by (simp add: bool_float_def)

text \<open>
  C3: every accuracy value appended lies in [0, 1], whatever the ground truth. At a sample
  whose ground-truth weight and predicted weight are both 0 the call returns normally and
  the weight score it appends is 0/0, NaN, which the clip leaves as it is.
\<close>

theorem zero_weight_score_nan:
  "fst (update_metrics rnd demo_validator zero_preds zero_batch) = None \<and>
   appended demo_validator (snd (update_metrics rnd demo_validator zero_preds zero_batch))
     ''weight'' = Some [NaN] \<and>
   map_option (list_all in_unit)
     (appended demo_validator (snd (update_metrics rnd demo_validator zero_preds zero_batch))
        ''weight'') = Some False"
  by (simp add: update_metrics_def zero_batch_def zero_preds_def accuracies_def column_def
      bind_e_def rel_acc_def match_acc_def broadcast_def stat_entries_def demo_validator_def
      HumanMetrics_def append_stat_def save_one_txt_def appended_def bool_float_def)

section \<open>One entry per batch\<close>

lemma attr_names_entries: "map fst (stat_entries a) = attr_names"
  by (simp add: stat_entries_def attr_names_def)

lemma update_metrics_appended:
  assumes "update_metrics rnd self preds batch = (None, self')" and "k \<in> set attr_names"
  shows "\<exists>arr. appended self self' k = Some arr"
proof -
  from update_metrics_None [OF assms(1)] obtain a where
    B: "append_all (stat_entries a) (metrics self) = (None, metrics self')"
    by auto
  from assms(2) have "k \<in> fst ` set (stat_entries a)"
    using attr_names_entries [of a] by (metis list.set_map)
  then obtain arr where "(k, arr) \<in> set (stat_entries a)"
    by auto
  from appended_entries [OF B this] show ?thesis ..
qed

lemma appended_stat_length:
  assumes "appended self self' k = Some arr"
  shows "\<exists>n. stat_length self k = Some n \<and> stat_length self' k = Some (Suc n)"
proof -
  from assms obtain old new where
    O: "attrs_stats (metrics self) k = Some old" and
    N: "attrs_stats (metrics self') k = Some new" and
    E: "new \<noteq> []" "butlast new = old"
    by (auto simp: appended_def split: option.splits if_splits)
  from E have "length new = Suc (length old)"
    by (cases new rule: rev_cases) auto
  with O N show ?thesis
    by (simp add: stat_length_def)
qed

lemma update_all_stat_length:
  "update_all rnd self calls = (None, self') \<Longrightarrow> k \<in> set attr_names \<Longrightarrow>
   stat_length self k = Some n \<Longrightarrow> stat_length self' k = Some (n + length calls)"
proof (induction calls arbitrary: self n)
  case Nil
  then show ?case by simp
next
  case (Cons c calls)
  obtain preds batch where c: "c = (preds, batch)" by (cases c)
  from Cons.prems(1) c obtain self1 where
    U: "update_metrics rnd self preds batch = (None, self1)" and
    R: "update_all rnd self1 calls = (None, self')"
    by (auto split: prod.splits option.splits)
  from update_metrics_appended [OF U Cons.prems(2)] obtain arr where
    "appended self self1 k = Some arr" ..
  from appended_stat_length [OF this] Cons.prems(3)
  have "stat_length self1 k = Some (Suc n)"
    by auto
  from Cons.IH [OF R Cons.prems(2) this] show ?case
    by simp
qed

text \<open>
  C6: a call of \<^verbatim>\<open>update_metrics\<close> that returns appends exactly one array under each of
  the five attribute names; so when the five lists have one common length before a
  sequence of calls that all return (length 0 for a new accumulator), they have that
  length plus the number of calls afterwards, all five the same.
\<close>

theorem one_array_per_batch:
  "(update_metrics rnd self preds batch = (None, self1)
      \<longrightarrow> list_all (\<lambda>k. appended self self1 k \<noteq> None) attr_names)
   \<and> (update_all rnd self calls = (None, self') \<and>
        map (stat_length self) attr_names = map (\<lambda>k. Some n) attr_names
      \<longrightarrow> map (stat_length self') attr_names = map (\<lambda>k. Some (n + length calls)) attr_names)"
proof (intro conjI impI)
  assume "update_metrics rnd self preds batch = (None, self1)"
  then show "list_all (\<lambda>k. appended self self1 k \<noteq> None) attr_names"
    using update_metrics_appended [of rnd self preds batch self1]
    by (auto simp: list_all_iff)
next
  assume H: "update_all rnd self calls = (None, self') \<and>
    map (stat_length self) attr_names = map (\<lambda>k. Some n) attr_names"
  then have "stat_length self k = Some n" if "k \<in> set attr_names" for k
    using that by (auto simp: map_eq_conv)
  with H have "stat_length self' k = Some (n + length calls)" if "k \<in> set attr_names" for k
    using that update_all_stat_length [of rnd self calls self' k n] by blast
  then show "map (stat_length self') attr_names = map (\<lambda>k. Some (n + length calls)) attr_names"
    by (simp add: map_eq_conv)
qed

lemma demo_run_twice:
  "fst (update_all round_fixed (init demo_validator) [(demo_preds, demo_batch), (zero_preds, zero_batch)])
     = None"
  by code_simp

lemma init_stat_lengths:
  "map (stat_length (init demo_validator)) attr_names = map (\<lambda>k. Some 0) attr_names"
  by (simp add: stat_length_def init_def HumanMetrics_def attr_names_def)

theorem one_array_per_batch_witness:
  "fst (update_metrics round_fixed demo_validator demo_preds demo_batch) = None \<and>
   list_all
     (\<lambda>k. appended demo_validator (snd (update_metrics round_fixed demo_validator demo_preds demo_batch)) k
            \<noteq> None) attr_names \<and>
   fst (update_all round_fixed (init demo_validator) [(demo_preds, demo_batch), (zero_preds, zero_batch)])
     = None \<and>
   map (stat_length
          (snd (update_all round_fixed (init demo_validator)
                  [(demo_preds, demo_batch), (zero_preds, zero_batch)]))) attr_names
     = [Some 2, Some 2, Some 2, Some 2, Some 2]"
proof -
  have R: "update_metrics round_fixed demo_validator demo_preds demo_batch =
             (None, snd (update_metrics round_fixed demo_validator demo_preds demo_batch))"
    using demo_run by (simp add: prod_eq_iff)
  have S: "update_all round_fixed (init demo_validator) [(demo_preds, demo_batch), (zero_preds, zero_batch)] =
             (None, snd (update_all round_fixed (init demo_validator)
                      [(demo_preds, demo_batch), (zero_preds, zero_batch)]))"
    using demo_run_twice by (simp add: prod_eq_iff)
  from one_array_per_batch
    [where self = demo_validator and preds = demo_preds and batch = demo_batch
       and ?self1.0 = "snd (update_metrics round_fixed demo_validator demo_preds demo_batch)"] R
  have A: "list_all
     (\<lambda>k. appended demo_validator (snd (update_metrics round_fixed demo_validator demo_preds demo_batch)) k
            \<noteq> None) attr_names"
    by simp
  from one_array_per_batch
    [where self = "init demo_validator"
       and calls = "[(demo_preds, demo_batch), (zero_preds, zero_batch)]"
       and self' = "snd (update_all round_fixed (init demo_validator)
                [(demo_preds, demo_batch), (zero_preds, zero_batch)])" and n = 0]
    S init_stat_lengths
  have B: "map (stat_length
          (snd (update_all round_fixed (init demo_validator)
                  [(demo_preds, demo_batch), (zero_preds, zero_batch)]))) attr_names
     = [Some 2, Some 2, Some 2, Some 2, Some 2]"
    by (simp add: attr_names_def)
  from A B demo_run demo_run_twice show ?thesis
    by simp
qed

section \<open>Label files\<close>

lemma save_one_txt_None:
  assumes "save_one_txt s p c sh f = (None, s')"
  shows "\<exists>w. s' = s\<lparr>txt_files := txt_files s @ [w]\<rparr> \<and> txt_file w = f \<and> human_of w = p"
proof (cases sh)
  case (ShapeV ns)
  with assms have
    "s' = s\<lparr>txt_files := txt_files s @
        [\<lparr>txt_file = f, human_of = p, with_conf = c, im_shape = (ns ! 0, ns ! 1)\<rparr>]\<rparr>"
    by (simp add: save_one_txt_def split: if_splits)
  then show ?thesis
    by (intro exI [of _ "\<lparr>txt_file = f, human_of = p, with_conf = c,
                           im_shape = (ns ! 0, ns ! 1)\<rparr>"]) simp
next
  case (PathsV ss)
  with assms show ?thesis
    by (simp add: save_one_txt_def split: if_splits)
next
  case (TensorV t)
  show ?thesis
  proof (cases "as_size (tdtype t) (rows t ! 0)")
    case (Inl e)
    with assms TensorV show ?thesis
      by (simp add: save_one_txt_def split: if_splits)
  next
    case H: (Inr h)
    show ?thesis
    proof (cases "as_size (tdtype t) (rows t ! 1)")
      case (Inl e)
      with assms TensorV H show ?thesis
        by (simp add: save_one_txt_def split: if_splits)
    next
      case (Inr w)
      with assms TensorV H have
        "s' = s\<lparr>txt_files := txt_files s @
            [\<lparr>txt_file = f, human_of = p, with_conf = c, im_shape = (h, w)\<rparr>]\<rparr>"
        by (simp add: save_one_txt_def split: if_splits)
      then show ?thesis
        by (intro exI [of _ "\<lparr>txt_file = f, human_of = p, with_conf = c,
                               im_shape = (h, w)\<rparr>"]) simp
    qed
  qed
qed







section \<open>Errors of update_metrics\<close>










section \<open>The layout plot_predictions reads\<close>

lemma map_zip_same:
  "map f (zip xs (zip (map g xs) (map h xs))) = map (\<lambda>x. f (x, g x, h x)) xs"
  by (induction xs) simp_all

lemma row_slices:
  assumes "length r = 11"
  shows "take 2 r = [r ! 0, r ! 1]" and "take 1 (drop 2 r) = [r ! 2]"
    and "take 2 (drop 3 r) = [r ! 3, r ! 4]" and "take 6 (drop 5 r) = drop 5 r"
  using assms by (simp_all add: take_Suc_conv_app_nth numeral_2_eq_2)

lemma display_row:
  assumes "length r = 11"
  shows "take 2 r @ [Fin (real (argmax_row (take 2 (drop 3 r))))] @ take 1 (drop 2 r) @
           [Fin (real (argmax_row (take 6 (drop 5 r))))] = code_display_row r"
  unfolding row_slices [OF assms] by (simp add: code_display_row_def)

text \<open>
  C4, as the code has it: \<^verbatim>\<open>plot_predictions\<close> reads the eleven columns of a prediction row
  in the order weight, height, age, the two gender logits, the six ethnicity logits: the
  age is column 2 and the gender logits are columns 3 and 4. The row it hands to the
  plotting is weight, height, the argmax of columns 3 and 4, column 2, the argmax of
  columns 5 to 10.
\<close>

theorem plot_predictions_layout:
  "wf_tensor preds \<and> ncols preds = 11
     \<longrightarrow> plot_predictions_attributes preds = Inr (map code_display_row (rows preds))"
proof
  assume H: "wf_tensor preds \<and> ncols preds = 11"
  then have L: "length r = 11" if "r \<in> set (rows preds)" for r
    using that by (auto simp: wf_tensor_def list_all_iff)
  have G: "argmax_cols 3 5 preds = Inr (map (\<lambda>r. argmax_row (take 2 (drop 3 r))) (rows preds))"
    using H by (simp add: argmax_cols_def)
  have E: "argmax_cols 5 (ncols preds) preds =
             Inr (map (\<lambda>r. argmax_row (take 6 (drop 5 r))) (rows preds))"
    using H by (simp add: argmax_cols_def)
  have "plot_predictions_attributes preds =
          Inr (map (\<lambda>r. take 2 r @ [Fin (real (argmax_row (take 2 (drop 3 r))))] @
                         take 1 (drop 2 r) @ [Fin (real (argmax_row (take 6 (drop 5 r))))])
                 (rows preds))"
    unfolding plot_predictions_attributes_def G E
    by (simp add: bind_e_def map_zip_same)
  also have "\<dots> = Inr (map code_display_row (rows preds))"
  proof -
    have "map (\<lambda>r. take 2 r @ [Fin (real (argmax_row (take 2 (drop 3 r))))] @
                     take 1 (drop 2 r) @ [Fin (real (argmax_row (take 6 (drop 5 r))))])
            (rows preds) = map code_display_row (rows preds)"
      by (rule map_cong [OF refl]) (rule display_row, rule L)
    then show ?thesis
      by (simp only:)
  qed
  finally show "plot_predictions_attributes preds = Inr (map code_display_row (rows preds))" .
qed

lemma demo_pred_tensor_wf: "wf_tensor demo_pred_tensor \<and> ncols demo_pred_tensor = 11"
  by (simp add: wf_tensor_def demo_pred_tensor_def demo_pred_rows_def)

lemma demo_display_rows:
  "map code_display_row (rows demo_pred_tensor) =
     [[Fin 60, Fin 150, Fin 0, Fin 20, Fin 2], [Fin 90, Fin 180, Fin 1, Fin 50, Fin 3]]"
  by (simp add: demo_pred_tensor_def demo_pred_rows_def code_display_row_def argmax_row_def
      greater_or_nan_def)

theorem plot_predictions_layout_witness:
  "wf_tensor demo_pred_tensor \<and> ncols demo_pred_tensor = 11 \<and>
   plot_predictions_attributes demo_pred_tensor =
     Inr [[Fin 60, Fin 150, Fin 0, Fin 20, Fin 2], [Fin 90, Fin 180, Fin 1, Fin 50, Fin 3]]"
  using plot_predictions_layout [of demo_pred_tensor] demo_pred_tensor_wf demo_display_rows
  by simp

theorem spec_layout_differs:
  "wf_tensor demo_pred_tensor \<and> ncols demo_pred_tensor = 11 \<and>
   plot_predictions_attributes demo_pred_tensor =
     Inr [[Fin 60, Fin 150, Fin 0, Fin 20, Fin 2], [Fin 90, Fin 180, Fin 1, Fin 50, Fin 3]] \<and>
   map spec_display_row (rows demo_pred_tensor) =
     [[Fin 60, Fin 150, Fin 0, Fin 1, Fin 2], [Fin 90, Fin 180, Fin 0, Fin 3, Fin 3]] \<and>
   plot_predictions_attributes demo_pred_tensor \<noteq>
     Inr (map spec_display_row (rows demo_pred_tensor))"
proof -
  have A: "plot_predictions_attributes demo_pred_tensor =
     Inr [[Fin 60, Fin 150, Fin 0, Fin 20, Fin 2], [Fin 90, Fin 180, Fin 1, Fin 50, Fin 3]]"
    by code_simp
  have B: "map spec_display_row (rows demo_pred_tensor) =
     [[Fin 60, Fin 150, Fin 0, Fin 1, Fin 2], [Fin 90, Fin 180, Fin 0, Fin 3, Fin 3]]"
    by (simp add: demo_pred_tensor_def demo_pred_rows_def spec_display_row_def argmax_row_def
      greater_or_nan_def)
  from A B demo_pred_tensor_wf show ?thesis
    by simp
qed

section \<open>preprocess\<close>






section \<open>postprocess\<close>

text \<open>
  C9, as the code has it: \<^verbatim>\<open>postprocess\<close> returns the first element of a tuple or list that
  has one, raises IndexError on an empty tuple or list, and returns any other input as it
  is. It has no state to change: the result is a part of its argument, or the argument.
\<close>

theorem postprocess_selects:
  "(is_sequence preds \<and> elements preds \<noteq> []
      \<longrightarrow> postprocess preds = Inr (hd (elements preds)))
   \<and> (is_sequence preds \<and> elements preds = [] \<longrightarrow> postprocess preds = Inl IndexError)
   \<and> (\<not> is_sequence preds \<longrightarrow> postprocess preds = Inr preds)"
  by (cases "elements preds") (simp_all add: postprocess_def)

theorem postprocess_selects_witness:
  "postprocess (TupleP [TensorP demo_pred_tensor, NoneP]) = Inr (TensorP demo_pred_tensor) \<and>
   postprocess (ListP [NoneP]) = Inr NoneP \<and>
   postprocess (ListP []) = Inl IndexError \<and>
   postprocess (TensorP demo_pred_tensor) = Inr (TensorP demo_pred_tensor)"
  using postprocess_selects [of "TupleP [TensorP demo_pred_tensor, NoneP]"]
    postprocess_selects [of "ListP [NoneP]"]
    postprocess_selects [of "ListP []"]
    postprocess_selects [of "TensorP demo_pred_tensor"]
  by simp

theorem postprocess_empty_tuple:
  "is_sequence (TupleP []) \<and> postprocess (TupleP []) = Inl IndexError \<and>
   (\<forall>x. postprocess (TupleP []) \<noteq> Inr x)"
  by (simp add: postprocess_def)

section \<open>Construction\<close>

lemma save_one_txt_frame:
  "\<exists>fs. snd (save_one_txt s p c sh f) = s\<lparr>txt_files := fs\<rparr>"
proof (cases "fst (save_one_txt s p c sh f)")
  case None
  then have "save_one_txt s p c sh f = (None, snd (save_one_txt s p c sh f))"
    by (simp add: prod_eq_iff)
  from save_one_txt_None [OF this] show ?thesis
    by blast
next
  case (Some e)
  have "snd (save_one_txt s p c sh f) = s \<or> fst (save_one_txt s p c sh f) = None"
    by (simp add: save_one_txt_def split: bval.splits sum.splits)
  with Some have "snd (save_one_txt s p c sh f) = s\<lparr>txt_files := txt_files s\<rparr>"
    by simp
  then show ?thesis ..
qed

lemma save_loop_frame:
  "\<exists>fs. snd (save_loop s b i ps) = s\<lparr>txt_files := fs\<rparr>"
proof (induction ps arbitrary: s i)
  case Nil
  have "snd (save_loop s b i []) = s\<lparr>txt_files := txt_files s\<rparr>"
    by simp
  then show ?case ..
next
  case (Cons p ps)
  have Sf: "s = s\<lparr>txt_files := txt_files s\<rparr>"
    by simp
  show ?case
  proof (cases "b ''im_file''")
    case None
    then have "snd (save_loop s b i (p # ps)) = s\<lparr>txt_files := txt_files s\<rparr>"
      by simp
    then show ?thesis ..
  next
    case F: (Some v)
    show ?thesis
    proof (cases v)
      case (TensorV t)
      with F have "snd (save_loop s b i (p # ps)) = s\<lparr>txt_files := txt_files s\<rparr>"
        by simp
      then show ?thesis ..
    next
      case (ShapeV ns)
      with F have "snd (save_loop s b i (p # ps)) = s\<lparr>txt_files := txt_files s\<rparr>"
        by simp
      then show ?thesis ..
    next
      case (PathsV fs)
      show ?thesis
      proof (cases "i < length fs")
        case False
        with F PathsV have "snd (save_loop s b i (p # ps)) = s\<lparr>txt_files := txt_files s\<rparr>"
          by simp
        then show ?thesis ..
      next
        case I: True
        show ?thesis
        proof (cases "b ''ori_shape''")
          case None
          with F PathsV I have "snd (save_loop s b i (p # ps)) = s\<lparr>txt_files := txt_files s\<rparr>"
            by simp
          then show ?thesis ..
        next
          case S: (Some shape)
          let ?f = "save_dir s @ [''labels'', stem (fs ! i) @ ''.txt'']"
          obtain r s1 where O: "save_one_txt s p (save_conf (args s)) shape ?f = (r, s1)"
            by (cases "save_one_txt s p (save_conf (args s)) shape ?f") blast
          from save_one_txt_frame [of s p "save_conf (args s)" shape ?f] O
          obtain fs1 where S1: "s1 = s\<lparr>txt_files := fs1\<rparr>"
            by auto
          show ?thesis
          proof (cases r)
            case (Some e)
            with F PathsV I S O have "snd (save_loop s b i (p # ps)) = s1"
              by simp
            with S1 show ?thesis by blast
          next
            case None
            with F PathsV I S O
            have L: "snd (save_loop s b i (p # ps)) = snd (save_loop s1 b (Suc i) ps)"
              by simp
            from Cons.IH [of s1 "Suc i"] obtain fs2 where
              "snd (save_loop s1 b (Suc i) ps) = s1\<lparr>txt_files := fs2\<rparr>"
              by blast
            with L S1 have "snd (save_loop s b i (p # ps)) = s\<lparr>txt_files := fs2\<rparr>"
              by simp
            then show ?thesis ..
          qed
        qed
      qed
    qed
  qed
qed

lemma update_metrics_frame:
  "\<exists>m fs. snd (update_metrics rnd self preds batch) = self\<lparr>metrics := m, txt_files := fs\<rparr>"
proof -
  have Sf: "self = self\<lparr>metrics := metrics self, txt_files := txt_files self\<rparr>"
    by simp
  show ?thesis
  proof (cases "batch ''attributes''")
    case None
    then have "snd (update_metrics rnd self preds batch) = self"
      by (simp add: update_metrics_def)
    with Sf show ?thesis by metis
  next
    case (Some v)
    show ?thesis
    proof (cases v)
      case (PathsV ss)
      with Some have "snd (update_metrics rnd self preds batch) = self"
        by (simp add: update_metrics_def)
      with Sf show ?thesis by metis
    next
      case (ShapeV ns)
      with Some have "snd (update_metrics rnd self preds batch) = self"
        by (simp add: update_metrics_def)
      with Sf show ?thesis by metis
    next
      case (TensorV gt)
      show ?thesis
      proof (cases "accuracies rnd preds gt")
        case (Inl e)
        with Some TensorV have "snd (update_metrics rnd self preds batch) = self"
          by (simp add: update_metrics_def)
        with Sf show ?thesis by metis
      next
        case (Inr a)
        obtain r m where R: "append_all (stat_entries a) (metrics self) = (r, m)"
          by (cases "append_all (stat_entries a) (metrics self)") blast
        show ?thesis
        proof (cases r)
          case E: (Some e)
          with Some TensorV Inr R
          have "snd (update_metrics rnd self preds batch) =
                  self\<lparr>metrics := m, txt_files := txt_files self\<rparr>"
            by (simp add: update_metrics_def)
          then show ?thesis by blast
        next
          case None
          show ?thesis
          proof (cases "save_txt (args self)")
            case False
            with Some TensorV Inr R None
            have "snd (update_metrics rnd self preds batch) =
                    self\<lparr>metrics := m, txt_files := txt_files self\<rparr>"
              by (simp add: update_metrics_def)
            then show ?thesis by blast
          next
            case True
            with Some TensorV Inr R None
            have U: "snd (update_metrics rnd self preds batch) =
                    snd (save_loop (self\<lparr>metrics := m\<rparr>) batch 0 (items preds))"
              by (simp add: update_metrics_def)
            from save_loop_frame [of "self\<lparr>metrics := m\<rparr>" batch 0 "items preds"]
            obtain fs where
              "snd (save_loop (self\<lparr>metrics := m\<rparr>) batch 0 (items preds)) =
                 self\<lparr>metrics := m, txt_files := fs\<rparr>"
              by auto
            with U show ?thesis by metis
          qed
        qed
      qed
    qed
  qed
qed

text \<open>
  C10: after \<^verbatim>\<open>__init__\<close> the task is \<^verbatim>\<open>"human"\<close>, whatever it was in the arguments handed
  in, and the metrics are a new accumulator; the methods that change the validator
  (\<^verbatim>\<open>update_metrics\<close>, \<^verbatim>\<open>save_one_txt\<close>, \<^verbatim>\<open>finalize_metrics\<close>) leave its arguments, the task
  among them, as they are.
\<close>

theorem init_task_human:
  "task (args (init base)) = ''human'' \<and>
   metrics (init base) = HumanMetrics \<and>
   args (snd (update_metrics rnd self preds batch)) = args self \<and>
   args (snd (save_one_txt self p c sh f)) = args self \<and>
   args (finalize_metrics self) = args self"
proof -
  from update_metrics_frame [of rnd self preds batch]
  have "args (snd (update_metrics rnd self preds batch)) = args self"
    by auto
  moreover
  from save_one_txt_frame [of self p c sh f]
  have "args (snd (save_one_txt self p c sh f)) = args self"
    by auto
  ultimately show ?thesis
    by (simp add: init_def finalize_metrics_def)
qed

theorem init_task_human_witness:
  "task (args demo_validator) = ''detect'' \<and>
   task (args (init demo_validator)) = ''human'' \<and>
   metrics (init demo_validator) = HumanMetrics \<and>
   task (args (snd (update_metrics round_fixed (init demo_validator) demo_preds demo_batch))) =
     ''human'' \<and>
   task (args (finalize_metrics (init demo_validator))) = ''human''"
proof -
  have D: "task (args demo_validator) = ''detect''"
    by (simp add: demo_validator_def)
  from init_task_human [of demo_validator round_fixed "init demo_validator" demo_preds
      demo_batch]
  have "task (args (init demo_validator)) = ''human''"
    "metrics (init demo_validator) = HumanMetrics"
    "args (snd (update_metrics round_fixed (init demo_validator) demo_preds demo_batch)) =
       args (init demo_validator)"
    "args (finalize_metrics (init demo_validator)) = args (init demo_validator)"
    by simp_all
  with D show ?thesis
    by simp
qed

end
